theory Spec2Isabelle
  imports Complex_Main
begin

section \<open>The hierarchical termination model of \<^verbatim>\<open>mcl_toolbox/models/hierarchical_models.py\<close>\<close>

text \<open>
  Python floats are modelled as \<open>real\<close>. An execution in which a float would become
  \<open>inf\<close> or \<open>nan\<close>, and every raised exception, is a value \<open>Inl e\<close> of the
  result type \<open>error + 'a\<close>.
\<close>

datatype error =
    KeyError string
  | AttributeError string
  | UnboundLocalError string
  | ValueError string
  | IndexError string
  | ZeroDivisionError
  | NonFinite string

subsection \<open>The termination agent (class \<^verbatim>\<open>HierarchicalAgent\<close>)\<close>

type_synonym params_dict = "string \<rightharpoonup> real"

text \<open>The entries of the \<^verbatim>\<open>attributes\<close> dictionary that \<^verbatim>\<open>HierarchicalAgent.__init__\<close> reads.\<close>

record attributes =
  attr_decision_rule :: string
  attr_features :: "string list"

record HierarchicalAgent =
  tau :: real
  payoffs :: "real list"
  params :: params_dict
  decision_rule :: string
  features :: "string list"
  max_payoff :: real
  avg_payoff :: real
  history :: "real list"
  action_log_probs :: "real list"

text \<open>\<^verbatim>\<open>params[k]\<close>: a missing key raises \<^verbatim>\<open>KeyError\<close>.\<close>

definition getitem :: "params_dict \<Rightarrow> string \<Rightarrow> error + real" where
  "getitem d k = (case d k of None \<Rightarrow> Inl (KeyError k) | Some v \<Rightarrow> Inr v)"

text \<open>\<^verbatim>\<open>HierarchicalAgent.__init__\<close> (lines 16-25).\<close>

definition HierarchicalAgent_init :: "params_dict \<Rightarrow> attributes \<Rightarrow> error + HierarchicalAgent" where
  "HierarchicalAgent_init ps attrs =
     (case getitem ps ''tau'' of
        Inl e \<Rightarrow> Inl e
      | Inr t \<Rightarrow>
          Inr \<lparr> tau = exp t,
                payoffs = [],
                params = ps,
                decision_rule = attr_decision_rule attrs,
                features = attr_features attrs,
                max_payoff = 0,
                avg_payoff = 0,
                history = [],
                action_log_probs = [] \<rparr>)"

text \<open>
  Modelled from the spec: \<^verbatim>\<open>rows_mean\<close> of \<^verbatim>\<open>mcl_toolbox.utils.learning_utils\<close> is
  not among the sources; the spec calls \<^verbatim>\<open>avg_payoff\<close> "the arithmetic mean of
  \<^verbatim>\<open>payoffs\<close>". It is only ever applied to a list that was just appended to.
\<close>

definition rows_mean :: "real list \<Rightarrow> real" where
  "rows_mean xs = sum_list xs / real (length xs)"

text \<open>\<^verbatim>\<open>update_payoffs\<close> (lines 27-32).\<close>

definition update_payoffs :: "HierarchicalAgent \<Rightarrow> real \<Rightarrow> HierarchicalAgent" where
  "update_payoffs ag total_reward =
     (let ag1 = ag\<lparr>payoffs := payoffs ag @ [total_reward]\<rparr>;
          ag2 = ag1\<lparr>avg_payoff := rows_mean (payoffs ag1)\<rparr>
      in if total_reward > max_payoff ag2
         then ag2\<lparr>max_payoff := total_reward\<rparr>
         else ag2)"

text \<open>\<^verbatim>\<open>update_history\<close> (lines 34-35).\<close>

definition update_history :: "HierarchicalAgent \<Rightarrow> real \<Rightarrow> HierarchicalAgent" where
  "update_history ag max_expected_return =
     ag\<lparr>history := history ag @ [max_expected_return]\<rparr>"

text \<open>\<^verbatim>\<open>init_model_params\<close> (lines 37-41): four assignments, nothing else.\<close>

definition init_model_params :: "HierarchicalAgent \<Rightarrow> HierarchicalAgent" where
  "init_model_params ag =
     ag\<lparr>payoffs := [], max_payoff := 0, avg_payoff := 0, history := []\<rparr>"

text \<open>A run of \<^verbatim>\<open>update_payoffs\<close> calls, in order, after a reset.\<close>

definition record_payoffs :: "HierarchicalAgent \<Rightarrow> real list \<Rightarrow> HierarchicalAgent" where
  "record_payoffs ag xs = foldl update_payoffs (init_model_params ag) xs"

text \<open>A concrete agent: rule \<^verbatim>\<open>best_payoff\<close>, \<open>theta = 0\<close>, \<open>tau = exp 0\<close>.\<close>

definition best_payoff_params :: params_dict where
  "best_payoff_params = [''tau'' \<mapsto> 0, ''theta'' \<mapsto> 0]"

definition best_payoff_agent :: HierarchicalAgent where
  "best_payoff_agent =
     \<lparr> tau = exp 0, payoffs = [], params = best_payoff_params,
       decision_rule = ''best_payoff'', features = [],
       max_payoff = 0, avg_payoff = 0, history = [], action_log_probs = [] \<rparr>"

subsection \<open>Collaborators outside the core\<close>

text \<open>
  The environment is an external object. Its state is an abstract type \<open>'e\<close>; the
  methods and attributes the core reads are the fields of \<open>env_ops\<close>. \<^verbatim>\<open>env.step(0)\<close>
  returns a 4-tuple of which the controller keeps the reward only. The collaborators'
  methods are taken to return normally.
\<close>

record 'e env_ops =
  env_reset :: "'e \<Rightarrow> 'e"
  get_available_actions :: "'e \<Rightarrow> int list"
  num_trials :: "'e \<Rightarrow> nat"
  num_actions :: "'e \<Rightarrow> nat"
  present_trial_num :: "'e \<Rightarrow> nat"
  get_max_dist_value :: "'e \<Rightarrow> real"
  get_min_dist_value :: "'e \<Rightarrow> real"
  calculate_max_expected_return :: "'e \<Rightarrow> real"
  env_step :: "'e \<Rightarrow> int \<Rightarrow> real \<times> 'e"
  get_next_trial :: "'e \<Rightarrow> 'e"

text \<open>
  The process-wide random source: an infinite stream of variates. A draw returns the head
  and leaves the tail.
\<close>

type_synonym rng = "nat \<Rightarrow> real"

definition draw :: "rng \<Rightarrow> real \<times> rng" where
  "draw g = (g 0, \<lambda>n. g (Suc n))"

subsection \<open>Numeric primitives\<close>

text \<open>
  Modelled from the spec: \<^verbatim>\<open>temp_sigmoid\<close> of \<^verbatim>\<open>mcl_toolbox.utils.learning_utils\<close> is
  not among the sources; the spec gives \<open>probability = 1 / (1 + exp(-score / tau))\<close>.
\<close>

definition temp_sigmoid :: "real \<Rightarrow> real \<Rightarrow> real" where
  "temp_sigmoid x t = 1 / (1 + exp (- x / t))"

text \<open>Euler's limit for the Gamma function, which normalises the Gamma density.\<close>

definition Gamma_series :: "real \<Rightarrow> nat \<Rightarrow> real" where
  "Gamma_series a n = fact n * real n powr a / pochhammer a (Suc n)"

definition Gamma_fn :: "real \<Rightarrow> real" where
  "Gamma_fn a = lim (Gamma_series a)"

text \<open>
  \<^verbatim>\<open>sp.stats.gamma.pdf(x, a=alpha, scale=beta)\<close>: \<open>nan\<close> for an invalid shape or scale,
  0 left of the support, and at \<open>x = 0\<close> the limit of the density: infinite for
  \<open>a < 1\<close>, \<open>1 / scale\<close> for \<open>a = 1\<close>, 0 for \<open>a > 1\<close>.
\<close>

definition gamma_pdf :: "real \<Rightarrow> real \<Rightarrow> real \<Rightarrow> error + real" where
  "gamma_pdf x a scale =
     (if a \<le> 0 \<or> scale \<le> 0 then Inl (NonFinite ''gamma.pdf: nan'')
      else if x < 0 then Inr 0
      else if x = 0 then
        (if a < 1 then Inl (NonFinite ''gamma.pdf: inf'')
         else if a = 1 then Inr (1 / scale)
         else Inr 0)
      else Inr ((x / scale) powr (a - 1) * exp (- (x / scale)) / Gamma_fn a / scale))"

text \<open>
  \<^verbatim>\<open>np.quantile(xs, q)\<close> for \<open>0 \<le> q \<le> 1\<close> on a non-empty sequence: linear
  interpolation between the two order statistics around position \<open>q * (n - 1)\<close>.
\<close>

definition np_quantile :: "real list \<Rightarrow> real \<Rightarrow> real" where
  "np_quantile xs q =
     (let s = sort xs;
          n = length xs;
          h = q * real (n - 1);
          lo = nat \<lfloor>h\<rfloor>;
          hi = min (lo + 1) (n - 1)
      in s ! lo + (h - real lo) * (s ! hi - s ! lo))"

text \<open>
  \<^verbatim>\<open>np.random.choice([0, 1], p=[p_stop, 1 - p_stop])\<close>: a negative entry of \<open>p\<close> raises
  \<^verbatim>\<open>ValueError\<close>; otherwise one uniform variate \<open>u\<close> is drawn and the first index whose
  cumulative probability exceeds \<open>u\<close> is returned.
\<close>

definition random_choice :: "rng \<Rightarrow> real \<Rightarrow> (error + int) \<times> rng" where
  "random_choice g p_stop =
     (if p_stop < 0 \<or> 1 - p_stop < 0
      then (Inl (ValueError ''probabilities are not non-negative''), g)
      else (let (u, g') = draw g in (Inr (if u < p_stop then 0 else 1), g')))"

subsection \<open>The decision rules (\<^verbatim>\<open>compute_stop_prob\<close>, lines 43-156)\<close>

text \<open>Lines 60-65.\<close>

definition rule_threshold :: "'e env_ops \<Rightarrow> 'e \<Rightarrow> params_dict \<Rightarrow> real \<Rightarrow> real \<Rightarrow> error + real" where
  "rule_threshold E env decision_params t max_expected_return =
     (let max_return = get_max_dist_value E env;
          min_return = get_min_dist_value E env;
          max_min_diff = max_return - min_return
      in if max_min_diff = 0 then Inl ZeroDivisionError
         else (case getitem decision_params ''theta'' of
                 Inl e \<Rightarrow> Inl e
               | Inr theta \<Rightarrow>
                   Inr (temp_sigmoid ((max_expected_return - min_return) / max_min_diff - theta) t)))"

text \<open>Lines 66-73: \<^verbatim>\<open>best_payoff\<close> and \<^verbatim>\<open>average_payoff\<close>, on the payoff argument given.\<close>

definition rule_payoff :: "params_dict \<Rightarrow> real \<Rightarrow> real \<Rightarrow> real \<Rightarrow> error + real" where
  "rule_payoff decision_params t max_expected_return payoff =
     (case getitem decision_params ''theta'' of
        Inl e \<Rightarrow> Inl e
      | Inr theta \<Rightarrow> Inr (temp_sigmoid (max_expected_return - exp theta * payoff) t))"

text \<open>Lines 74-81.\<close>

definition rule_adaptive_satisficing ::
  "'e env_ops \<Rightarrow> 'e \<Rightarrow> params_dict \<Rightarrow> real \<Rightarrow> real \<Rightarrow> error + real" where
  "rule_adaptive_satisficing E env decision_params t max_expected_return =
     (let num_clicks = int (num_actions E env) - int (length (get_available_actions E env))
      in case getitem decision_params ''a'' of
           Inl e \<Rightarrow> Inl e
         | Inr a \<Rightarrow>
             (case getitem decision_params ''b'' of
                Inl e \<Rightarrow> Inl e
              | Inr b \<Rightarrow>
                  Inr (temp_sigmoid (max_expected_return - exp a + exp b * real_of_int num_clicks) t)))"

text \<open>
  Lines 82-94: the branch reads \<^verbatim>\<open>self.termination_features\<close>, an attribute that the
  class never assigns.
\<close>

definition rule_feature :: "error + real" where
  "rule_feature = Inl (AttributeError ''termination_features'')"

text \<open>Lines 95-106: \<^verbatim>\<open>best_path_difference\<close>, \<^verbatim>\<open>VPI\<close>, \<^verbatim>\<open>VOI1\<close>.\<close>

definition rule_difference :: "params_dict \<Rightarrow> real \<Rightarrow> real \<Rightarrow> real \<Rightarrow> error + real" where
  "rule_difference decision_params t x max_expected_return =
     (case getitem decision_params ''theta'' of
        Inl e \<Rightarrow> Inl e
      | Inr theta \<Rightarrow> Inr (temp_sigmoid (x - max_expected_return - theta) t))"

text \<open>Lines 107-110: \<^verbatim>\<open>maximum_improvement\<close>, \<^verbatim>\<open>expected_improvement\<close>.\<close>

definition rule_improvement :: "params_dict \<Rightarrow> real \<Rightarrow> real \<Rightarrow> error + real" where
  "rule_improvement decision_params t x =
     (case getitem decision_params ''theta'' of
        Inl e \<Rightarrow> Inl e
      | Inr theta \<Rightarrow> Inr (temp_sigmoid (x - theta) t))"

text \<open>
  Lines 111-118. \<^verbatim>\<open>decision_params\<close> is \<^verbatim>\<open>self.params\<close> itself, so the two assignments
  write into the agent's dictionary. The quantile of an empty sequence is not a number.
\<close>

definition rule_quantile :: "HierarchicalAgent \<Rightarrow> real list \<Rightarrow> (error + real) \<times> HierarchicalAgent" where
  "rule_quantile ag path_history =
     (case getitem (params ag) ''theta'' of
        Inl e \<Rightarrow> (Inl e, ag)
      | Inr theta0 \<Rightarrow>
          (let ag1 = (if theta0 > 1 then ag\<lparr>params := (params ag)(''theta'' \<mapsto> 1)\<rparr> else ag);
               theta1 = (if theta0 > 1 then 1 else theta0);
               ag2 = (if theta1 < 0 then ag1\<lparr>params := (params ag1)(''theta'' \<mapsto> 0)\<rparr> else ag1);
               theta2 = (if theta1 < 0 then 0 else theta1)
           in if path_history = []
              then (Inl (NonFinite ''quantile of an empty sequence''), ag2)
              else (Inr (temp_sigmoid (np_quantile path_history theta2) (tau ag)), ag2)))"

text \<open>
  Lines 125-136, the inner loop over \<^verbatim>\<open>enumerate(path_history)\<close>: \<open>i\<close> is the index of
  the head of the remaining list. The two conditions exclude each other.
\<close>

fun forget_products ::
  "real \<Rightarrow> real \<Rightarrow> nat \<Rightarrow> real \<Rightarrow> nat \<Rightarrow> real list \<Rightarrow> real \<times> real \<Rightarrow> error + real \<times> real" where
  "forget_products alpha beta trial_num reward i [] acc = Inr acc"
| "forget_products alpha beta trial_num reward i (higher_reward # rest) (p_forget_higher, p_forget_reward) =
     (let delta = real_of_int (int trial_num - int i)
      in if higher_reward > reward then
           (case gamma_pdf delta alpha beta of
              Inl e \<Rightarrow> Inl e
            | Inr d \<Rightarrow> forget_products alpha beta trial_num reward (Suc i) rest
                         (p_forget_higher * d, p_forget_reward))
         else if higher_reward = reward then
           (case gamma_pdf delta alpha beta of
              Inl e \<Rightarrow> Inl e
            | Inr d \<Rightarrow> forget_products alpha beta trial_num reward (Suc i) rest
                         (p_forget_higher, p_forget_reward * d))
         else forget_products alpha beta trial_num reward (Suc i) rest
                (p_forget_higher, p_forget_reward))"

text \<open>
  Lines 124-141, the outer loop over \<^verbatim>\<open>set(path_history)\<close>, here in order of first
  occurrence; \<open>p_stop\<close> is the running sum.
\<close>

fun noisy_memory_sum ::
  "params_dict \<Rightarrow> real \<Rightarrow> real \<Rightarrow> real \<Rightarrow> nat \<Rightarrow> real \<Rightarrow> real list \<Rightarrow> real list \<Rightarrow> real \<Rightarrow> error + real" where
  "noisy_memory_sum decision_params t alpha beta trial_num max_expected_return path_history [] p_stop =
     Inr p_stop"
| "noisy_memory_sum decision_params t alpha beta trial_num max_expected_return path_history (reward # rest) p_stop =
     (case forget_products alpha beta trial_num reward 0 path_history (1, 1) of
        Inl e \<Rightarrow> Inl e
      | Inr (p_forget_higher, p_forget_reward) \<Rightarrow>
          (let p_remember_reward = 1 - p_forget_reward
           in case getitem decision_params ''theta'' of
                Inl e \<Rightarrow> Inl e
              | Inr theta \<Rightarrow>
                  (let p_stop_conditional = temp_sigmoid (max_expected_return - exp theta * reward) t
                   in noisy_memory_sum decision_params t alpha beta trial_num max_expected_return
                        path_history rest
                        (p_stop + p_remember_reward * p_forget_higher * p_stop_conditional))))"

text \<open>Lines 119-141.\<close>

definition rule_noisy_memory_best_payoff ::
  "'e env_ops \<Rightarrow> 'e \<Rightarrow> params_dict \<Rightarrow> real \<Rightarrow> real \<Rightarrow> real list \<Rightarrow> error + real" where
  "rule_noisy_memory_best_payoff E env decision_params t max_expected_return path_history =
     (case getitem decision_params ''alpha'' of
        Inl e \<Rightarrow> Inl e
      | Inr alpha \<Rightarrow>
          (case getitem decision_params ''beta'' of
             Inl e \<Rightarrow> Inl e
           | Inr beta \<Rightarrow>
               noisy_memory_sum decision_params t alpha beta (present_trial_num E env)
                 max_expected_return path_history (remdups path_history) 0))"

text \<open>
  Lines 142-155. \<^verbatim>\<open>np.random.normal(loc, scale)\<close> raises \<^verbatim>\<open>ValueError\<close> for a negative
  scale and otherwise returns \<open>loc + scale * z\<close> for a standard normal variate \<open>z\<close>. The
  mean after trial 0 is read from the agent's own \<^verbatim>\<open>avg_payoff\<close>.
\<close>

definition rule_confidence_bound ::
  "'e env_ops \<Rightarrow> 'e \<Rightarrow> HierarchicalAgent \<Rightarrow> rng \<Rightarrow> real \<Rightarrow> (error + real) \<times> rng" where
  "rule_confidence_bound E env ag g max_expected_return =
     (let trial_num = present_trial_num E env
      in case (if trial_num = 0 then getitem (params ag) ''threshold_mean'' else Inr (avg_payoff ag)) of
           Inl e \<Rightarrow> (Inl e, g)
         | Inr threshold_mean \<Rightarrow>
             (case getitem (params ag) ''threshold_var'' of
                Inl e \<Rightarrow> (Inl e, g)
              | Inr threshold_var \<Rightarrow>
                  (let scale = threshold_var / sqrt (real (trial_num + 1))
                   in if scale < 0 then (Inl (ValueError ''scale < 0''), g)
                      else (let (z, g') = draw g
                            in (Inr (temp_sigmoid (max_expected_return - (threshold_mean + scale * z)) (tau ag)),
                                g')))))"

text \<open>
  \<^verbatim>\<open>compute_stop_prob\<close>. The arguments after the random source are, in the order of the
  Python signature, \<^verbatim>\<open>max_expected_return\<close>, \<^verbatim>\<open>max_payoff\<close>, \<^verbatim>\<open>avg_payoff\<close>, \<^verbatim>\<open>vpi\<close>,
  \<^verbatim>\<open>voi\<close>, \<^verbatim>\<open>max_improvement\<close>, \<^verbatim>\<open>expected_improvement\<close>, \<^verbatim>\<open>path_history\<close>. The result is
  the returned probability (or the error), the agent and the random source afterwards. A
  rule name outside the chain leaves \<^verbatim>\<open>p_stop\<close> unbound at the \<^verbatim>\<open>return\<close>.
\<close>

definition compute_stop_prob ::
  "'e env_ops \<Rightarrow> HierarchicalAgent \<Rightarrow> 'e \<Rightarrow> rng \<Rightarrow>
   real \<Rightarrow> real \<Rightarrow> real \<Rightarrow> real \<Rightarrow> real \<Rightarrow> real \<Rightarrow> real \<Rightarrow> real list \<Rightarrow>
   (error + real) \<times> HierarchicalAgent \<times> rng" where
  "compute_stop_prob E ag env g max_expected_return max_payoff_arg avg_payoff_arg vpi voi
     max_improvement expected_improvement path_history =
     (let rule = decision_rule ag;
          decision_params = params ag;
          t = tau ag
      in if length (get_available_actions E env) = 1 then (Inr 1, ag, g)
         else if rule = ''threshold'' then
           (rule_threshold E env decision_params t max_expected_return, ag, g)
         else if rule = ''best_payoff'' then
           (rule_payoff decision_params t max_expected_return max_payoff_arg, ag, g)
         else if rule = ''average_payoff'' then
           (rule_payoff decision_params t max_expected_return avg_payoff_arg, ag, g)
         else if rule = ''adaptive_satisficing'' then
           (rule_adaptive_satisficing E env decision_params t max_expected_return, ag, g)
         else if rule = ''feature'' then (rule_feature, ag, g)
         else if rule = ''best_path_difference'' then
           (rule_difference decision_params t max_payoff_arg max_expected_return, ag, g)
         else if rule = ''VPI'' then
           (rule_difference decision_params t vpi max_expected_return, ag, g)
         else if rule = ''VOI1'' then
           (rule_difference decision_params t voi max_expected_return, ag, g)
         else if rule = ''maximum_improvement'' then
           (rule_improvement decision_params t max_improvement, ag, g)
         else if rule = ''expected_improvement'' then
           (rule_improvement decision_params t expected_improvement, ag, g)
         else if rule = ''quantile'' then
           (let (res, ag') = rule_quantile ag path_history in (res, ag', g))
         else if rule = ''noisy_memory_best_payoff'' then
           (rule_noisy_memory_best_payoff E env decision_params t max_expected_return path_history,
            ag, g)
         else if rule = ''confidence_bound'' then
           (let (res, g') = rule_confidence_bound E env ag g max_expected_return in (res, ag, g'))
         else (Inl (UnboundLocalError ''p_stop''), ag, g))"

text \<open>Line 166-167: the draw of the choice from the computed probability.\<close>

definition sample_termination_choice ::
  "(error + real) \<times> HierarchicalAgent \<times> rng \<Rightarrow> (error + int \<times> real) \<times> HierarchicalAgent \<times> rng" where
  "sample_termination_choice r =
     (case r of
        (Inl e, ag, g) \<Rightarrow> (Inl e, ag, g)
      | (Inr p_stop, ag, g) \<Rightarrow>
          (case random_choice g p_stop of
             (Inl e, g') \<Rightarrow> (Inl e, ag, g')
           | (Inr termination_choice, g') \<Rightarrow> (Inr (termination_choice, p_stop), ag, g')))"

text \<open>
  \<^verbatim>\<open>get_action\<close> (lines 158-167). The call passes \<^verbatim>\<open>max_expected_return\<close> and
  \<^verbatim>\<open>path_history\<close> only; the other keyword arguments take their default 0.
\<close>

definition get_action ::
  "'e env_ops \<Rightarrow> HierarchicalAgent \<Rightarrow> 'e \<Rightarrow> rng \<Rightarrow> (error + int \<times> real) \<times> HierarchicalAgent \<times> rng" where
  "get_action E ag env g =
     (let max_expected_return = calculate_max_expected_return E env;
          ag1 = update_history ag max_expected_return
      in sample_termination_choice
           (compute_stop_prob E ag1 env g max_expected_return 0 0 0 0 0 0 (history ag1)))"

subsection \<open>The controller (class \<^verbatim>\<open>HierarchicalLearner\<close>)\<close>

text \<open>
  The execution agent is external as well: its state is an abstract type \<open>'a\<close>, and
  \<open>actor_ops\<close> holds what the controller calls. \<open>actor_clear_trial_buffers\<close> stands for
  the three assignments of lines 196-198 and \<open>actor_set_num_actions\<close> for the assignment
  to \<^verbatim>\<open>num_actions\<close>. Methods that receive the environment may change it.
\<close>

record ('a, 'e, 'w, 'p) actor_ops =
  actor_init_model_params :: "'a \<Rightarrow> 'a"
  actor_set_num_actions :: "'a \<Rightarrow> nat \<Rightarrow> 'a"
  actor_clear_trial_buffers :: "'a \<Rightarrow> 'a"
  get_current_weights :: "'a \<Rightarrow> 'w"
  act_and_learn :: "'a \<Rightarrow> 'e \<Rightarrow> bool \<Rightarrow> (int \<times> real \<times> bool) \<times> 'a \<times> 'e"
  store_action_likelihood :: "'a \<Rightarrow> 'e \<Rightarrow> int \<Rightarrow> 'a \<times> 'e"
  take_action_and_learn :: "'a \<Rightarrow> 'e \<Rightarrow> int \<Rightarrow> real \<Rightarrow> int option \<Rightarrow> 'p \<Rightarrow> 'a \<times> 'e"
  actor_action_log_probs :: "'a \<Rightarrow> real list"

text \<open>\<^verbatim>\<open>participant.all_trials_data\<close> with its three keys.\<close>

record 'p participant =
  p_actions :: "int list list"
  p_rewards :: "real list list"
  p_taken_paths :: "'p list"

text \<open>The fields of the learner that \<^verbatim>\<open>simulate\<close> reads.\<close>

record 'a HierarchicalLearner =
  no_term :: bool
  decision_agent :: HierarchicalAgent
  actor_agent :: 'a

text \<open>The returned dictionary: keys \<^verbatim>\<open>w\<close>, \<^verbatim>\<open>a\<close>, \<^verbatim>\<open>r\<close>, \<^verbatim>\<open>loss\<close>.\<close>

record 'w trials_data =
  td_w :: "'w list"
  td_a :: "int list list"
  td_r :: "real list"
  td_loss :: "real option"

text \<open>
  Lines 207-231, the replay of one observed trial: \<open>idx\<close> holds the indices still to be
  visited. \<open>precision_epsilon\<close> is a constant of \<^verbatim>\<open>mcl_toolbox.global_vars\<close>, which is not
  among the sources, and is a parameter here. The logarithm of a non-positive number is
  not finite.
\<close>

fun replay_steps ::
  "'e env_ops \<Rightarrow> ('a, 'e, 'w, 'p) actor_ops \<Rightarrow> real \<Rightarrow> int list \<Rightarrow> real list \<Rightarrow> 'p \<Rightarrow> nat list \<Rightarrow>
   'a HierarchicalLearner \<times> 'e \<times> rng \<Rightarrow> int list \<times> real list \<Rightarrow>
   error + ('a HierarchicalLearner \<times> 'e \<times> rng) \<times> int list \<times> real list" where
  "replay_steps E A precision_epsilon trial_actions trial_rewards trial_path [] st acc = Inr (st, acc)"
| "replay_steps E A precision_epsilon trial_actions trial_rewards trial_path (i # idx) (lrn, env, g)
     (actions, rewards) =
     (let action = trial_actions ! i
      in if length trial_rewards \<le> i then Inl (IndexError ''trial_rewards'')
         else
          (let reward = trial_rewards ! i
           in case get_action E (decision_agent lrn) env g of
                (Inl e, dag, g1) \<Rightarrow> Inl e
              | (Inr (termination_choice, p_stop), dag, g1) \<Rightarrow>
                  (let action_prob =
                         (if action \<noteq> 0
                          then (if 1 - p_stop = 0 then precision_epsilon else 1 - p_stop)
                          else (if p_stop = 0 then precision_epsilon else p_stop))
                   in if action_prob \<le> 0 then Inl (NonFinite ''log'')
                      else
                       (let dag1 = dag\<lparr>action_log_probs := action_log_probs dag @ [ln action_prob]\<rparr>;
                            rewards1 = rewards @ [reward];
                            actions1 = actions @ [action]
                        in if \<not> no_term lrn \<or> action \<noteq> 0 then
                             (let (act1, env1) = store_action_likelihood A (actor_agent lrn) env action;
                                  next_action =
                                    (if i \<noteq> length trial_actions - 1
                                     then Some (trial_actions ! (i + 1)) else None);
                                  (act2, env2) =
                                    take_action_and_learn A act1 env1 action reward next_action trial_path
                              in replay_steps E A precision_epsilon trial_actions trial_rewards trial_path idx
                                   (lrn\<lparr>decision_agent := dag1, actor_agent := act2\<rparr>, env2, g1)
                                   (actions1, rewards1))
                           else replay_steps E A precision_epsilon trial_actions trial_rewards trial_path idx
                                  (lrn\<lparr>decision_agent := dag1\<rparr>, env, g1)
                                  (actions1, rewards1)))))"

text \<open>Lines 204-207: the three lookups by trial number, then the replay.\<close>

definition replay_trial ::
  "'e env_ops \<Rightarrow> ('a, 'e, 'w, 'p) actor_ops \<Rightarrow> real \<Rightarrow> 'p participant \<Rightarrow> nat \<Rightarrow>
   'a HierarchicalLearner \<times> 'e \<times> rng \<Rightarrow>
   error + ('a HierarchicalLearner \<times> 'e \<times> rng) \<times> int list \<times> real list" where
  "replay_trial E A precision_epsilon part trial_num st =
     (if length (p_actions part) \<le> trial_num then Inl (IndexError ''actions'')
      else if length (p_rewards part) \<le> trial_num then Inl (IndexError ''rewards'')
      else if length (p_taken_paths part) \<le> trial_num then Inl (IndexError ''taken_paths'')
      else (let trial_actions = p_actions part ! trial_num;
                trial_rewards = p_rewards part ! trial_num;
                trial_path = p_taken_paths part ! trial_num
            in replay_steps E A precision_epsilon trial_actions trial_rewards trial_path
                 [0..<length trial_actions] st ([], [])))"

text \<open>
  Lines 233-253, the \<^verbatim>\<open>while True\<close> loop of a generated trial. The loop need not end:
  \<open>None\<close> is a run that never returns.
\<close>

partial_function (option) generate_trial ::
  "'e env_ops \<Rightarrow> ('a, 'e, 'w, 'p) actor_ops \<Rightarrow> 'a HierarchicalLearner \<Rightarrow> 'e \<Rightarrow> rng \<Rightarrow>
   int list \<Rightarrow> real list \<Rightarrow>
   (error + ('a HierarchicalLearner \<times> 'e \<times> rng) \<times> int list \<times> real list) option" where
  "generate_trial E A lrn env g actions rewards =
     (case get_action E (decision_agent lrn) env g of
        (Inl e, dag, g1) \<Rightarrow> Some (Inl e)
      | (Inr (continue_planning, p_stop), dag, g1) \<Rightarrow>
          if continue_planning = 0 then
            (case env_step E env 0 of
               (reward, env1) \<Rightarrow>
                 (case act_and_learn A (actor_agent lrn) env1 True of
                    (res, act1, env2) \<Rightarrow>
                      Some (Inr ((lrn\<lparr>decision_agent := dag, actor_agent := act1\<rparr>, env2, g1),
                                 (actions @ [0]) @ [continue_planning],
                                 rewards @ [reward]))))
          else
            (case act_and_learn A (actor_agent lrn) env False of
               ((action, reward, done), act1, env1) \<Rightarrow>
                 if done then
                   Some (Inr ((lrn\<lparr>decision_agent := dag, actor_agent := act1\<rparr>, env1, g1),
                              actions @ [action], rewards @ [reward]))
                 else generate_trial E A (lrn\<lparr>decision_agent := dag, actor_agent := act1\<rparr>) env1 g1
                        (actions @ [action]) (rewards @ [reward])))"

text \<open>Lines 195-256, the loop over \<^verbatim>\<open>range(num_trials)\<close>.\<close>

fun run_trials ::
  "'e env_ops \<Rightarrow> ('a, 'e, 'w, 'p) actor_ops \<Rightarrow> real \<Rightarrow> bool \<Rightarrow> 'p participant \<Rightarrow> nat list \<Rightarrow>
   'a HierarchicalLearner \<times> 'e \<times> rng \<Rightarrow> 'w trials_data \<Rightarrow>
   (error + ('a HierarchicalLearner \<times> 'e \<times> rng) \<times> 'w trials_data) option" where
  "run_trials E A precision_epsilon compute_likelihood part [] st td = Some (Inr (st, td))"
| "run_trials E A precision_epsilon compute_likelihood part (trial_num # rest) (lrn, env, g) td =
     (let act0 = actor_set_num_actions A (actor_clear_trial_buffers A (actor_agent lrn))
                   (length (get_available_actions E env));
          lrn0 = lrn\<lparr>actor_agent := act0\<rparr>;
          td0 = td\<lparr>td_w := td_w td @ [get_current_weights A act0]\<rparr>
      in case (if compute_likelihood
               then Some (replay_trial E A precision_epsilon part trial_num (lrn0, env, g))
               else generate_trial E A lrn0 env g [] []) of
           None \<Rightarrow> None
         | Some (Inl e) \<Rightarrow> Some (Inl e)
         | Some (Inr ((lrn1, env1, g1), actions, rewards)) \<Rightarrow>
             run_trials E A precision_epsilon compute_likelihood part rest
               (lrn1, get_next_trial E env1, g1)
               (td0\<lparr>td_a := td_a td0 @ [actions], td_r := td_r td0 @ [sum_list rewards]\<rparr>))"

text \<open>Lines 257-263.\<close>

definition final_loss :: "('a, 'e, 'w, 'p) actor_ops \<Rightarrow> 'a HierarchicalLearner \<Rightarrow> real option" where
  "final_loss A lrn =
     (if action_log_probs (decision_agent lrn) \<noteq> [] \<and> actor_action_log_probs A (actor_agent lrn) \<noteq> []
      then Some (- (sum_list (action_log_probs (decision_agent lrn))
                    + sum_list (actor_action_log_probs A (actor_agent lrn))))
      else None)"

text \<open>
  \<^verbatim>\<open>simulate\<close> (lines 185-264). Line 186 reads \<^verbatim>\<open>participant.all_trials_data\<close> in either
  mode, so the default \<^verbatim>\<open>participant=None\<close> raises. The result is the returned dictionary
  with the learner, the environment and the random source as the run leaves them.
\<close>

definition simulate ::
  "'e env_ops \<Rightarrow> ('a, 'e, 'w, 'p) actor_ops \<Rightarrow> real \<Rightarrow> 'a HierarchicalLearner \<Rightarrow> 'e \<Rightarrow> rng \<Rightarrow>
   bool \<Rightarrow> 'p participant option \<Rightarrow>
   (error + 'w trials_data \<times> 'a HierarchicalLearner \<times> 'e \<times> rng) option" where
  "simulate E A precision_epsilon lrn env g compute_likelihood participant =
     (case participant of
        None \<Rightarrow> Some (Inl (AttributeError ''all_trials_data''))
      | Some part \<Rightarrow>
          (let n = num_trials E env;
               act0 = actor_init_model_params A (actor_agent lrn);
               dag0 = init_model_params (decision_agent lrn);
               env0 = env_reset E env;
               act1 = actor_set_num_actions A act0 (length (get_available_actions E env0));
               lrn0 = lrn\<lparr>decision_agent := dag0, actor_agent := act1\<rparr>
           in case run_trials E A precision_epsilon compute_likelihood part [0..<n] (lrn0, env0, g)
                     \<lparr>td_w = [], td_a = [], td_r = [], td_loss = None\<rparr> of
                None \<Rightarrow> None
              | Some (Inl e) \<Rightarrow> Some (Inl e)
              | Some (Inr ((lrn1, env1, g1), td)) \<Rightarrow>
                  Some (Inr (td\<lparr>td_loss := final_loss A lrn1\<rparr>, lrn1, env1, g1))))"

subsection \<open>A small concrete setting\<close>

text \<open>
  An environment whose state is the trial number: three available actions, one trial,
  a root value of 0 and a terminal reward of 7.
\<close>

definition toy_env :: "nat env_ops" where
  "toy_env =
     \<lparr> env_reset = (\<lambda>e. 0),
       get_available_actions = (\<lambda>e. [0, 1, 2]),
       num_trials = (\<lambda>e. 1),
       num_actions = (\<lambda>e. 3),
       present_trial_num = (\<lambda>e. e),
       get_max_dist_value = (\<lambda>e. 10),
       get_min_dist_value = (\<lambda>e. 0),
       calculate_max_expected_return = (\<lambda>e. 0),
       env_step = (\<lambda>e a. (7, e)),
       get_next_trial = Suc \<rparr>"

text \<open>
  An execution agent whose state is its list of log-probabilities: the reset empties it,
  scoring an action appends \<open>-1\<close>, and acting clicks node 1 at a cost of 1.
\<close>

definition toy_actor :: "(real list, nat, unit, unit) actor_ops" where
  "toy_actor =
     \<lparr> actor_init_model_params = (\<lambda>a. []),
       actor_set_num_actions = (\<lambda>a n. a),
       actor_clear_trial_buffers = (\<lambda>a. a),
       get_current_weights = (\<lambda>a. ()),
       act_and_learn = (\<lambda>a e end_episode. ((1, - 1, False), a, e)),
       store_action_likelihood = (\<lambda>a e action. (a @ [- 1], e)),
       take_action_and_learn = (\<lambda>a e action reward next_action path. (a, e)),
       actor_action_log_probs = (\<lambda>a. a) \<rparr>"

definition toy_learner :: "real list HierarchicalLearner" where
  "toy_learner = \<lparr> no_term = False, decision_agent = best_payoff_agent, actor_agent = [] \<rparr>"

definition toy_participant :: "unit participant" where
  "toy_participant = \<lparr> p_actions = [[0]], p_rewards = [[7]], p_taken_paths = [()] \<rparr>"

text \<open>A random source that always yields 0.\<close>

definition zero_rng :: rng where
  "zero_rng = (\<lambda>n. 0)"

text \<open>The same environment with a single available action.\<close>

definition single_action_env :: "nat env_ops" where
  "single_action_env = toy_env\<lparr>get_available_actions := (\<lambda>e. [0])\<rparr>"

text \<open>An agent configured with the \<^verbatim>\<open>feature\<close> rule.\<close>

definition feature_agent :: HierarchicalAgent where
  "feature_agent = best_payoff_agent\<lparr>decision_rule := ''feature''\<rparr>"

text \<open>The same environment with a root value of 8.\<close>

definition return8_env :: "nat env_ops" where
  "return8_env = toy_env\<lparr>calculate_max_expected_return := (\<lambda>e. 8)\<rparr>"

text \<open>The \<^verbatim>\<open>best_payoff\<close> agent after one recorded trial payoff of 8.\<close>

definition paid8_agent :: HierarchicalAgent where
  "paid8_agent = update_payoffs best_payoff_agent 8"

text \<open>
  An agent with the \<^verbatim>\<open>noisy_memory_best_payoff\<close> rule: shape \<open>alpha = 1\<close>, scale
  \<open>beta = 1/2\<close>, \<open>theta = 0\<close>, \<open>tau = exp 0\<close>.
\<close>

definition noisy_memory_agent :: HierarchicalAgent where
  "noisy_memory_agent =
     \<lparr> tau = exp 0, payoffs = [],
       params = [''tau'' \<mapsto> 0, ''theta'' \<mapsto> 0, ''alpha'' \<mapsto> 1, ''beta'' \<mapsto> 1 / 2],
       decision_rule = ''noisy_memory_best_payoff'', features = [],
       max_payoff = 0, avg_payoff = 0, history = [], action_log_probs = [] \<rparr>"

text \<open>An agent with the \<^verbatim>\<open>quantile\<close> rule and \<open>theta = 3/2\<close>, outside \<open>[0, 1]\<close>.\<close>

definition quantile_agent :: HierarchicalAgent where
  "quantile_agent =
     \<lparr> tau = exp 0, payoffs = [], params = [''tau'' \<mapsto> 0, ''theta'' \<mapsto> 3 / 2],
       decision_rule = ''quantile'', features = [],
       max_payoff = 0, avg_payoff = 0, history = [], action_log_probs = [] \<rparr>"

text \<open>The same environment with no trial at all.\<close>

definition empty_env :: "nat env_ops" where
  "empty_env = toy_env\<lparr>num_trials := (\<lambda>e. 0)\<rparr>"

text \<open>
  What one generated trial in this setting returns and leaves behind: the termination
  agent stops at the first decision.
\<close>

definition toy_generated_data :: "unit trials_data" where
  "toy_generated_data = \<lparr> td_w = [()], td_a = [[0, 0]], td_r = [7], td_loss = None \<rparr>"

definition toy_generated_learner :: "real list HierarchicalLearner" where
  "toy_generated_learner =
     \<lparr> no_term = False, decision_agent = best_payoff_agent\<lparr>history := [0]\<rparr>, actor_agent = [] \<rparr>"

text \<open>
  The same for one replayed trial whose observed sequence is the terminal action alone:
  the termination agent logs \<open>ln (1/2)\<close> and the execution agent \<open>-1\<close>.
\<close>

definition toy_replayed_data :: "unit trials_data" where
  "toy_replayed_data = \<lparr> td_w = [()], td_a = [[0]], td_r = [7], td_loss = Some (1 + ln 2) \<rparr>"

definition toy_replayed_learner :: "real list HierarchicalLearner" where
  "toy_replayed_learner =
     \<lparr> no_term = False,
       decision_agent = best_payoff_agent\<lparr>history := [0], action_log_probs := [- ln 2]\<rparr>,
       actor_agent = [- 1] \<rparr>"

text \<open>The learner after a second replay of the same trial.\<close>

definition toy_replayed_twice_learner :: "real list HierarchicalLearner" where
  "toy_replayed_twice_learner =
     \<lparr> no_term = False,
       decision_agent = best_payoff_agent\<lparr>history := [0], action_log_probs := [- ln 2, - ln 2]\<rparr>,
       actor_agent = [- 1] \<rparr>"



section \<open>Running statistics\<close>

lemma foldl_update_payoffs_payoffs:
  "payoffs (foldl update_payoffs ag xs) = payoffs ag @ xs"
  by (induction xs arbitrary: ag) (simp_all add: update_payoffs_def Let_def)

lemma foldl_update_payoffs_max:
  "max_payoff (foldl update_payoffs ag xs) = fold max xs (max_payoff ag)"
  by (induction xs arbitrary: ag) (auto simp: update_payoffs_def Let_def max_def)

lemma fold_max_Max: "fold max xs (m::real) = Max (insert m (set xs))"
proof (induction xs arbitrary: m)
  case Nil
  show ?case by simp
next
  case (Cons x xs)
  have "Max (insert (max x m) (set xs)) = Max (insert m (insert x (set xs)))"
  proof (cases "set xs = {}")
    case True
    then show ?thesis by (simp add: max.commute)
  next
    case False
    then show ?thesis by (simp add: max.assoc max.commute max.left_commute)
  qed
  with Cons show ?case by simp
qed

lemma update_payoffs_avg:
  "avg_payoff (update_payoffs ag x) = rows_mean (payoffs ag @ [x])"
  by (simp add: update_payoffs_def Let_def)

lemma foldl_update_payoffs_avg:
  "avg_payoff (foldl update_payoffs ag xs) =
     (if xs = [] then avg_payoff ag else rows_mean (payoffs ag @ xs))"
proof (cases xs rule: rev_cases)
  case Nil
  then show ?thesis by simp
next
  case (snoc ys y)
  have "foldl update_payoffs ag (ys @ [y]) = update_payoffs (foldl update_payoffs ag ys) y"
    by simp
  then show ?thesis
    using snoc by (simp only: update_payoffs_avg foldl_update_payoffs_payoffs) simp
qed

text \<open>
  After a reset and any sequence \<open>xs\<close> of \<^verbatim>\<open>update_payoffs\<close> calls, \<open>payoffs\<close> is
  \<open>xs\<close>, \<open>avg_payoff\<close> is the arithmetic mean of \<open>xs\<close> (0 when \<open>xs\<close> is empty), and
  \<open>max_payoff\<close> is the largest of 0 and the elements of \<open>xs\<close>: a running maximum
  seeded with 0.
\<close>

theorem record_payoffs_statistics:
  "payoffs (record_payoffs ag xs) = xs
   \<and> avg_payoff (record_payoffs ag xs) = (if xs = [] then 0 else sum_list xs / real (length xs))
   \<and> max_payoff (record_payoffs ag xs) = Max (insert 0 (set xs))"
  by (simp add: record_payoffs_def foldl_update_payoffs_payoffs foldl_update_payoffs_avg
      foldl_update_payoffs_max fold_max_Max init_model_params_def rows_mean_def)

text \<open>
  C3. The invariant \<open>max_payoff = max(payoffs)\<close> for non-empty \<open>payoffs\<close> does not
  survive a sequence of negative rewards: after the single payoff \<open>-5\<close> the list is
  non-empty, its maximum is \<open>-5\<close>, and \<open>max_payoff\<close> is still 0.
\<close>

theorem max_payoff_misses_negative_payoffs:
  "payoffs (record_payoffs best_payoff_agent [-5]) = [-5]
   \<and> Max (set (payoffs (record_payoffs best_payoff_agent [-5]))) = -5
   \<and> max_payoff (record_payoffs best_payoff_agent [-5]) = 0
   \<and> max_payoff (record_payoffs best_payoff_agent [-5])
       \<noteq> Max (set (payoffs (record_payoffs best_payoff_agent [-5])))"
  by (simp add: record_payoffs_def update_payoffs_def init_model_params_def
      best_payoff_agent_def Let_def)

section \<open>The decision rule evaluator\<close>

lemma temp_sigmoid_pos: "0 < temp_sigmoid x t"
  by (simp add: temp_sigmoid_def add_pos_pos)

lemma temp_sigmoid_less_one: "temp_sigmoid x t < 1"
  by (simp add: temp_sigmoid_def add_pos_pos)

lemma temp_sigmoid_zero: "temp_sigmoid 0 t = 1 / 2"
  by (simp add: temp_sigmoid_def)

text \<open>
  C7. Whatever the rule name and the parameters, when the environment reports exactly one
  available action \<^verbatim>\<open>compute_stop_prob\<close> returns 1.0 at once: no rule is evaluated, so no
  error of a rule can arise, and the agent and the random source are as before.
\<close>

theorem single_action_forces_stop:
  "length (get_available_actions E env) = 1 \<Longrightarrow>
   compute_stop_prob E ag env g mer mp ap vpi voi mi ei ph = (Inr 1, ag, g)"
  by (simp add: compute_stop_prob_def)

text \<open>An instance: one available action and the \<^verbatim>\<open>feature\<close> rule, whose branch would raise.\<close>

theorem single_action_forces_stop_witness:
  "length (get_available_actions single_action_env 0) = 1
   \<and> compute_stop_prob single_action_env feature_agent 0 zero_rng 3 0 0 0 0 0 0 []
       = (Inr 1, feature_agent, zero_rng)"
  using single_action_forces_stop [of single_action_env 0 feature_agent zero_rng 3 0 0 0 0 0 0 "[]"]
  by (simp add: single_action_env_def toy_env_def)

lemma paid8_agent_fields:
  "max_payoff paid8_agent = 8" "avg_payoff paid8_agent = 8" "payoffs paid8_agent = [8]"
  "decision_rule paid8_agent = ''best_payoff''" "tau paid8_agent = 1"
  "params paid8_agent = best_payoff_params" "history paid8_agent = []"
  by (simp_all add: paid8_agent_def update_payoffs_def best_payoff_agent_def Let_def rows_mean_def)

text \<open>
  C2. The agent has recorded one payoff of 8, so its running maximum is 8, and the root
  value is 8. Fed the running maximum, the \<^verbatim>\<open>best_payoff\<close> rule scores \<open>8 - exp 0 * 8 = 0\<close>
  and yields 1/2. \<^verbatim>\<open>get_action\<close> passes neither \<^verbatim>\<open>max_payoff\<close> nor \<^verbatim>\<open>avg_payoff\<close>, the
  rule sees the default 0, and the probability is the sigmoid of 8.
\<close>

theorem get_action_drops_running_statistics:
  "max_payoff paid8_agent = 8
   \<and> fst (get_action return8_env paid8_agent 0 zero_rng) = Inr (0, temp_sigmoid 8 1)
   \<and> fst (compute_stop_prob return8_env (update_history paid8_agent 8) 0 zero_rng
             8 (max_payoff paid8_agent) (avg_payoff paid8_agent) 0 0 0 0 (history paid8_agent @ [8]))
       = Inr (1 / 2)
   \<and> temp_sigmoid 8 1 \<noteq> 1 / 2"
proof -
  have ne: "temp_sigmoid 8 1 \<noteq> 1 / 2"
    by (simp add: temp_sigmoid_def)
  have ga: "fst (get_action return8_env paid8_agent 0 zero_rng) = Inr (0, temp_sigmoid 8 1)"
    using temp_sigmoid_pos [of 8 1] temp_sigmoid_less_one [of 8 1]
    by (simp add: get_action_def compute_stop_prob_def sample_termination_choice_def
        random_choice_def draw_def zero_rng_def rule_payoff_def getitem_def update_history_def
        return8_env_def toy_env_def paid8_agent_fields best_payoff_params_def Let_def)
  have fed: "fst (compute_stop_prob return8_env (update_history paid8_agent 8) 0 zero_rng
             8 (max_payoff paid8_agent) (avg_payoff paid8_agent) 0 0 0 0 (history paid8_agent @ [8]))
       = Inr (1 / 2)"
    by (simp add: compute_stop_prob_def rule_payoff_def getitem_def update_history_def
        return8_env_def toy_env_def paid8_agent_fields best_payoff_params_def Let_def
        temp_sigmoid_zero)
  show ?thesis using ne ga fed by (simp add: paid8_agent_fields)
qed

text \<open>
  C5. On the first step of the first trial (history \<open>[0]\<close>, trial number 0) the density
  of the Gamma distribution with shape 1 and scale 1/2 at time delta 0 is 2, so the
  "probability of remembering" is \<open>1 - 2\<close> and the returned stop probability is \<open>-1/2\<close>;
  \<^verbatim>\<open>get_action\<close> then fails in \<^verbatim>\<open>np.random.choice\<close>.
\<close>

theorem noisy_memory_stop_prob_negative:
  "fst (compute_stop_prob toy_env noisy_memory_agent 0 zero_rng 0 0 0 0 0 0 0 [0]) = Inr (- 1 / 2)
   \<and> fst (get_action toy_env noisy_memory_agent 0 zero_rng)
       = Inl (ValueError ''probabilities are not non-negative'')"
  by (simp add: get_action_def compute_stop_prob_def sample_termination_choice_def
      random_choice_def rule_noisy_memory_best_payoff_def getitem_def update_history_def
      gamma_pdf_def toy_env_def noisy_memory_agent_def Let_def temp_sigmoid_zero)

lemma rule_quantile_agent:
  "snd (rule_quantile ag ph) =
     ag\<lparr>params := (case params ag ''theta'' of
                      None \<Rightarrow> params ag
                    | Some theta \<Rightarrow> (params ag)(''theta'' \<mapsto> max 0 (min 1 theta)))\<rparr>"
proof (cases "params ag ''theta''")
  case None
  then show ?thesis by (simp add: rule_quantile_def getitem_def)
next
  case (Some theta)
  consider "theta > 1" | "theta < 0" | "0 \<le> theta \<and> theta \<le> 1" by linarith
  then show ?thesis
  proof cases
    case 1
    with Some show ?thesis by (simp add: rule_quantile_def getitem_def Let_def)
  next
    case 2
    with Some show ?thesis by (simp add: rule_quantile_def getitem_def Let_def)
  next
    case 3
    with Some have "(params ag)(''theta'' \<mapsto> max 0 (min 1 theta)) = params ag"
      by (simp add: map_upd_triv)
    with Some 3 show ?thesis by (simp add: rule_quantile_def getitem_def Let_def)
  qed
qed

lemma compute_stop_prob_agent:
  "fst (snd (compute_stop_prob E ag env g mer mp ap vpi voi mi ei ph)) =
     (if decision_rule ag = ''quantile'' \<and> length (get_available_actions E env) \<noteq> 1
      then snd (rule_quantile ag ph) else ag)"
  by (simp add: compute_stop_prob_def Let_def split_def)

text \<open>
  C8 (as amended). \<^verbatim>\<open>compute_stop_prob\<close> returns the agent unchanged for every rule but
  \<^verbatim>\<open>quantile\<close>; under \<^verbatim>\<open>quantile\<close>, with more than one available action and \<open>theta\<close>
  present, the agent's parameter dictionary afterwards holds \<open>theta\<close> clamped to \<open>[0, 1]\<close>
  and is otherwise the same.
\<close>

theorem compute_stop_prob_params_frame:
  "fst (snd (compute_stop_prob E ag env g mer mp ap vpi voi mi ei ph)) =
     ag\<lparr>params :=
          (if decision_rule ag = ''quantile'' \<and> length (get_available_actions E env) \<noteq> 1
           then (case params ag ''theta'' of
                   None \<Rightarrow> params ag
                 | Some theta \<Rightarrow> (params ag)(''theta'' \<mapsto> max 0 (min 1 theta)))
           else params ag)\<rparr>"
  by (simp add: compute_stop_prob_agent rule_quantile_agent)

text \<open>
  C8 (as stated) fails: evaluating the \<^verbatim>\<open>quantile\<close> rule with \<open>theta = 3/2\<close> leaves
  \<open>theta = 1\<close> in the agent's parameters.
\<close>

theorem quantile_overwrites_theta_counterexample:
  "params quantile_agent ''theta'' = Some (3 / 2)
   \<and> params (fst (snd (compute_stop_prob toy_env quantile_agent 0 zero_rng 0 0 0 0 0 0 0 [0]))) ''theta''
       = Some 1
   \<and> params (fst (snd (compute_stop_prob toy_env quantile_agent 0 zero_rng 0 0 0 0 0 0 0 [0])))
       \<noteq> params quantile_agent"
proof -
  have a: "params quantile_agent ''theta'' = Some (3 / 2)"
    by (simp add: quantile_agent_def)
  have b: "params (fst (snd (compute_stop_prob toy_env quantile_agent 0 zero_rng 0 0 0 0 0 0 0 [0])))
             ''theta'' = Some 1"
    by (simp add: compute_stop_prob_agent rule_quantile_agent toy_env_def quantile_agent_def)
  have "params (fst (snd (compute_stop_prob toy_env quantile_agent 0 zero_rng 0 0 0 0 0 0 0 [0])))
          \<noteq> params quantile_agent"
  proof
    assume "params (fst (snd (compute_stop_prob toy_env quantile_agent 0 zero_rng 0 0 0 0 0 0 0 [0])))
              = params quantile_agent"
    with b have "params quantile_agent ''theta'' = Some 1" by simp
    with a show False by simp
  qed
  with a b show ?thesis by simp
qed

section \<open>The history passed by \<^verbatim>\<open>get_action\<close>\<close>

lemma getitem_not_NonFinite: "getitem d k \<noteq> Inl (NonFinite s)"
  by (simp add: getitem_def split: option.split)

lemma gamma_pdf_not_quantile_error:
  "gamma_pdf x a sc \<noteq> Inl (NonFinite ''quantile of an empty sequence'')"
  by (simp add: gamma_pdf_def)

lemma forget_products_not_quantile_error:
  "forget_products alpha beta trial_num reward i xs acc
     \<noteq> Inl (NonFinite ''quantile of an empty sequence'')"
proof (induction alpha beta trial_num reward i xs acc rule: forget_products.induct)
  case (1 alpha beta trial_num reward i acc)
  show ?case by simp
next
  case (2 alpha beta trial_num reward i higher_reward rest p_forget_higher p_forget_reward)
  then show ?case
    using gamma_pdf_not_quantile_error
    by (auto simp: Let_def split: sum.splits)
qed

lemma noisy_memory_sum_not_quantile_error:
  "noisy_memory_sum dp t alpha beta trial_num mer ph vs p
     \<noteq> Inl (NonFinite ''quantile of an empty sequence'')"
proof (induction dp t alpha beta trial_num mer ph vs p rule: noisy_memory_sum.induct)
  case (1 dp t alpha beta trial_num mer ph p)
  show ?case by simp
next
  case (2 dp t alpha beta trial_num mer ph reward rest p)
  then show ?case
    using forget_products_not_quantile_error getitem_not_NonFinite
    by (auto simp: Let_def split: sum.splits prod.splits)
qed

lemma rule_threshold_not_quantile_error:
  "rule_threshold E env dp t mer \<noteq> Inl (NonFinite ''quantile of an empty sequence'')"
  using getitem_not_NonFinite [of dp "''theta''"]
  by (auto simp: rule_threshold_def Let_def split: sum.split)

lemma rule_payoff_not_quantile_error:
  "rule_payoff dp t mer p \<noteq> Inl (NonFinite ''quantile of an empty sequence'')"
  using getitem_not_NonFinite [of dp "''theta''"]
  by (auto simp: rule_payoff_def split: sum.split)

lemma rule_adaptive_satisficing_not_quantile_error:
  "rule_adaptive_satisficing E env dp t mer \<noteq> Inl (NonFinite ''quantile of an empty sequence'')"
  using getitem_not_NonFinite [of dp "''a''"] getitem_not_NonFinite [of dp "''b''"]
  by (auto simp: rule_adaptive_satisficing_def Let_def split: sum.split)

lemma rule_difference_not_quantile_error:
  "rule_difference dp t x mer \<noteq> Inl (NonFinite ''quantile of an empty sequence'')"
  using getitem_not_NonFinite [of dp "''theta''"]
  by (auto simp: rule_difference_def split: sum.split)

lemma rule_improvement_not_quantile_error:
  "rule_improvement dp t x \<noteq> Inl (NonFinite ''quantile of an empty sequence'')"
  using getitem_not_NonFinite [of dp "''theta''"]
  by (auto simp: rule_improvement_def split: sum.split)

lemma rule_noisy_memory_not_quantile_error:
  "rule_noisy_memory_best_payoff E env dp t mer ph
     \<noteq> Inl (NonFinite ''quantile of an empty sequence'')"
  using getitem_not_NonFinite [of dp "''alpha''"] getitem_not_NonFinite [of dp "''beta''"]
    noisy_memory_sum_not_quantile_error
  by (auto simp: rule_noisy_memory_best_payoff_def split: sum.split)

lemma rule_confidence_bound_not_quantile_error:
  "fst (rule_confidence_bound E env ag g mer) \<noteq> Inl (NonFinite ''quantile of an empty sequence'')"
  using getitem_not_NonFinite [of "params ag" "''threshold_mean''"]
    getitem_not_NonFinite [of "params ag" "''threshold_var''"]
  by (auto simp: rule_confidence_bound_def Let_def split_def split: sum.split)

lemma rule_quantile_not_quantile_error:
  "ph \<noteq> [] \<Longrightarrow> fst (rule_quantile ag ph) \<noteq> Inl (NonFinite ''quantile of an empty sequence'')"
  using getitem_not_NonFinite [of "params ag" "''theta''"]
  by (auto simp: rule_quantile_def Let_def split: sum.split)

lemma compute_stop_prob_not_quantile_error:
  assumes "ph \<noteq> []"
  shows "fst (compute_stop_prob E ag env g mer mp ap vpi voi mi ei ph)
           \<noteq> Inl (NonFinite ''quantile of an empty sequence'')"
  using rule_quantile_not_quantile_error [OF assms, of ag]
  by (simp add: compute_stop_prob_def Let_def split_def rule_feature_def
      rule_threshold_not_quantile_error rule_payoff_not_quantile_error
      rule_adaptive_satisficing_not_quantile_error rule_difference_not_quantile_error
      rule_improvement_not_quantile_error rule_noisy_memory_not_quantile_error
      rule_confidence_bound_not_quantile_error)

lemma sample_termination_choice_error:
  "fst (sample_termination_choice r) = Inl e \<Longrightarrow>
   fst r = Inl e \<or> e = ValueError ''probabilities are not non-negative''"
  by (auto simp: sample_termination_choice_def random_choice_def split_def Let_def
      split: prod.splits sum.splits if_splits)

text \<open>
  C10. \<^verbatim>\<open>get_action\<close> appends the current max expected return to the history and passes
  the extended history as \<^verbatim>\<open>path_history\<close>: the passed sequence is never empty, and no
  decision made through \<^verbatim>\<open>get_action\<close> ends in the quantile of an empty sequence.
\<close>

theorem get_action_history_nonempty:
  "history (update_history ag (calculate_max_expected_return E env)) \<noteq> []
   \<and> get_action E ag env g =
       sample_termination_choice
         (compute_stop_prob E (update_history ag (calculate_max_expected_return E env)) env g
            (calculate_max_expected_return E env) 0 0 0 0 0 0
            (history ag @ [calculate_max_expected_return E env]))
   \<and> fst (get_action E ag env g) \<noteq> Inl (NonFinite ''quantile of an empty sequence'')"
proof -
  let ?mer = "calculate_max_expected_return E env"
  have h: "history (update_history ag ?mer) = history ag @ [?mer]"
    by (simp add: update_history_def)
  have eq: "get_action E ag env g =
       sample_termination_choice
         (compute_stop_prob E (update_history ag ?mer) env g ?mer 0 0 0 0 0 0 (history ag @ [?mer]))"
    by (simp add: get_action_def Let_def h)
  have "fst (get_action E ag env g) \<noteq> Inl (NonFinite ''quantile of an empty sequence'')"
  proof
    assume "fst (get_action E ag env g) = Inl (NonFinite ''quantile of an empty sequence'')"
    with eq sample_termination_choice_error
    have "fst (compute_stop_prob E (update_history ag ?mer) env g ?mer 0 0 0 0 0 0 (history ag @ [?mer]))
            = Inl (NonFinite ''quantile of an empty sequence'')"
      by fastforce
    moreover have "fst (compute_stop_prob E (update_history ag ?mer) env g ?mer 0 0 0 0 0 0
                          (history ag @ [?mer]))
                     \<noteq> Inl (NonFinite ''quantile of an empty sequence'')"
      by (rule compute_stop_prob_not_quantile_error) simp
    ultimately show False by (rule notE [rotated])
  qed
  with h eq show ?thesis by simp
qed

section \<open>The simulation controller\<close>

subsection \<open>The payoffs of the termination agent during a run\<close>

lemma sample_termination_choice_agent:
  "fst (snd (sample_termination_choice r)) = fst (snd r)"
  by (auto simp: sample_termination_choice_def split: prod.splits sum.splits)

lemma get_action_agent:
  "fst (snd (get_action E ag env g)) =
     (let ag1 = update_history ag (calculate_max_expected_return E env)
      in if decision_rule ag = ''quantile'' \<and> length (get_available_actions E env) \<noteq> 1
         then snd (rule_quantile ag1 (history ag1)) else ag1)"
  by (simp add: get_action_def Let_def sample_termination_choice_agent compute_stop_prob_agent
      update_history_def)

lemma get_action_payoffs:
  assumes "get_action E ag env g = (r, ag', g')"
  shows "payoffs ag' = payoffs ag"
proof -
  have "ag' = fst (snd (get_action E ag env g))" using assms by simp
  then show ?thesis
    by (simp add: get_action_agent rule_quantile_agent Let_def update_history_def)
qed

lemma get_action_action_log_probs:
  assumes "get_action E ag env g = (r, ag', g')"
  shows "action_log_probs ag' = action_log_probs ag"
proof -
  have "ag' = fst (snd (get_action E ag env g))" using assms by simp
  then show ?thesis
    by (simp add: get_action_agent rule_quantile_agent Let_def update_history_def)
qed

lemma replay_steps_payoffs:
  "replay_steps E A eps tas trs tp idx (lrn, env, g) (actions, rewards)
     = Inr ((lrn', env', g'), acc') \<Longrightarrow>
   payoffs (decision_agent lrn') = payoffs (decision_agent lrn)"
proof (induction idx arbitrary: lrn env g actions rewards)
  case Nil
  then show ?case by simp
next
  case (Cons i idx)
  from Cons.prems show ?case
    by (auto simp: Let_def split: if_splits prod.splits sum.splits
        dest!: Cons.IH dest: get_action_payoffs)
qed

lemma replay_trial_payoffs:
  "replay_trial E A eps part trial_num (lrn, env, g) = Inr ((lrn', env', g'), acc') \<Longrightarrow>
   payoffs (decision_agent lrn') = payoffs (decision_agent lrn)"
  by (auto simp: replay_trial_def Let_def split: if_splits dest: replay_steps_payoffs)

lemma generate_trial_payoffs:
  assumes "generate_trial E A lrn env g actions rewards = Some y"
  shows "\<forall>lrn' env' g' acc'. y = Inr ((lrn', env', g'), acc') \<longrightarrow>
           payoffs (decision_agent lrn') = payoffs (decision_agent lrn)"
proof (rule generate_trial.raw_induct
    [where P = "\<lambda>E A lrn env g actions rewards y.
                  \<forall>lrn' env' g' acc'. y = Inr ((lrn', env', g'), acc') \<longrightarrow>
                    payoffs (decision_agent lrn') = payoffs (decision_agent lrn)",
     OF _ assms], goal_cases)
  case (1 loop E A lrn env g actions rewards y)
  from 1(2) show ?case
    by (auto simp: Let_def split: if_splits prod.splits sum.splits
        dest!: 1(1) dest: get_action_payoffs)
qed

lemma run_trials_payoffs:
  "run_trials E A eps cl part ts (lrn, env, g) td = Some (Inr ((lrn', env', g'), td')) \<Longrightarrow>
   payoffs (decision_agent lrn') = payoffs (decision_agent lrn)
   \<and> length (td_r td') = length (td_r td) + length ts
   \<and> length (td_a td') = length (td_a td) + length ts"
proof (induction ts arbitrary: lrn env g td)
  case Nil
  then show ?case by simp
next
  case (Cons trial_num rest)
  let ?act0 = "actor_set_num_actions A (actor_clear_trial_buffers A (actor_agent lrn))
                 (length (get_available_actions E env))"
  let ?lrn0 = "lrn\<lparr>actor_agent := ?act0\<rparr>"
  let ?td0 = "td\<lparr>td_w := td_w td @ [get_current_weights A ?act0]\<rparr>"
  let ?trial = "if cl then Some (replay_trial E A eps part trial_num (?lrn0, env, g))
                else generate_trial E A ?lrn0 env g [] []"
  from Cons.prems obtain lrn1 env1 g1 actions rewards where
    trial: "?trial = Some (Inr ((lrn1, env1, g1), actions, rewards))" and
    rest: "run_trials E A eps cl part rest (lrn1, get_next_trial E env1, g1)
             (?td0\<lparr>td_a := td_a ?td0 @ [actions], td_r := td_r ?td0 @ [sum_list rewards]\<rparr>)
           = Some (Inr ((lrn', env', g'), td'))"
    by (auto simp: Let_def split: option.splits sum.splits prod.splits)
  have "payoffs (decision_agent lrn1) = payoffs (decision_agent ?lrn0)"
  proof (cases cl)
    case True
    with trial show ?thesis by (auto dest: replay_trial_payoffs)
  next
    case False
    with trial show ?thesis by (auto dest: generate_trial_payoffs)
  qed
  with Cons.IH [OF rest] show ?case by simp
qed

text \<open>
  C1. \<^verbatim>\<open>simulate\<close> contains no call of \<^verbatim>\<open>update_payoffs\<close>. In either mode, a run that
  returns has completed \<open>num_trials\<close> trials (one total reward per trial under key
  \<^verbatim>\<open>r\<close>), and the termination agent's \<open>payoffs\<close> is empty: its length is 0, not the
  number of completed trials.
\<close>

theorem simulate_never_records_payoffs:
  "simulate E A eps lrn env g compute_likelihood participant = Some (Inr (td, lrn', env', g')) \<Longrightarrow>
   length (td_r td) = num_trials E env \<and> payoffs (decision_agent lrn') = []"
  by (auto simp: simulate_def Let_def init_model_params_def
      split: option.splits sum.splits prod.splits dest!: run_trials_payoffs)

subsection \<open>A generated trial that stops\<close>

lemma draw_zero_rng: "draw zero_rng = (0, zero_rng)"
  by (simp add: draw_def zero_rng_def)

lemma toy_get_action:
  assumes "decision_rule ag = ''best_payoff''" "params ag = best_payoff_params" "tau ag = 1"
  shows "get_action toy_env ag e zero_rng = (Inr (0, 1 / 2), ag\<lparr>history := history ag @ [0]\<rparr>, zero_rng)"
  using assms
  by (simp add: get_action_def compute_stop_prob_def sample_termination_choice_def
      random_choice_def draw_zero_rng rule_payoff_def getitem_def update_history_def
      toy_env_def best_payoff_params_def Let_def temp_sigmoid_zero)

lemma generate_trial_stop:
  assumes "get_action E (decision_agent lrn) env g = (Inr (0, p_stop), dag, g1)"
    and "env_step E env 0 = (reward, env1)"
    and "act_and_learn A (actor_agent lrn) env1 True = (res, act1, env2)"
  shows "generate_trial E A lrn env g actions rewards =
           Some (Inr ((lrn\<lparr>decision_agent := dag, actor_agent := act1\<rparr>, env2, g1),
                      actions @ [0, 0], rewards @ [reward]))"
  using assms by (subst generate_trial.simps) simp

text \<open>
  C4. In generative mode, when the sampled choice is 0 (stop), the trial ends with the
  terminal reward appended once and the terminal action appended twice: once as the
  literal 0 and once more as \<^verbatim>\<open>continue_planning\<close>, which is 0.
\<close>

theorem generative_stop_appends_terminal_action_twice:
  assumes "get_action E (decision_agent lrn) env g = (Inr (0, p_stop), dag, g1)"
    and "env_step E env 0 = (reward, env1)"
    and "act_and_learn A (actor_agent lrn) env1 True = (res, act1, env2)"
  shows "generate_trial E A lrn env g actions rewards =
           Some (Inr ((lrn\<lparr>decision_agent := dag, actor_agent := act1\<rparr>, env2, g1),
                      actions @ [0, 0], rewards @ [reward]))"
  using assms by (rule generate_trial_stop)

lemma toy_generate_trial:
  "generate_trial toy_env toy_actor toy_learner 0 zero_rng [] [] =
     Some (Inr ((toy_generated_learner, 0, zero_rng), [0, 0], [7]))"
proof -
  have ga: "get_action toy_env (decision_agent toy_learner) 0 zero_rng =
              (Inr (0, 1 / 2), best_payoff_agent\<lparr>history := [0]\<rparr>, zero_rng)"
    by (simp add: toy_get_action toy_learner_def best_payoff_agent_def)
  have st: "env_step toy_env 0 0 = (7, 0)"
    by (simp add: toy_env_def)
  have al: "act_and_learn toy_actor (actor_agent toy_learner) 0 True = ((1, - 1, False), [], 0)"
    by (simp add: toy_actor_def toy_learner_def)
  show ?thesis
    using generate_trial_stop [OF ga st al, of "[]" "[]"]
    by (simp add: toy_learner_def toy_generated_learner_def)
qed

text \<open>An instance: the first decision of the concrete setting stops, and the trial is \<open>[0, 0]\<close>.\<close>

theorem generative_stop_appends_terminal_action_twice_witness:
  "get_action toy_env (decision_agent toy_learner) 0 zero_rng =
     (Inr (0, 1 / 2), best_payoff_agent\<lparr>history := [0]\<rparr>, zero_rng)
   \<and> env_step toy_env 0 0 = (7, 0)
   \<and> act_and_learn toy_actor (actor_agent toy_learner) 0 True = ((1, - 1, False), [], 0)
   \<and> generate_trial toy_env toy_actor toy_learner 0 zero_rng [] [] =
       Some (Inr ((toy_generated_learner, 0, zero_rng), [0, 0], [7]))"
proof -
  have ga: "get_action toy_env (decision_agent toy_learner) 0 zero_rng =
              (Inr (0, 1 / 2), best_payoff_agent\<lparr>history := [0]\<rparr>, zero_rng)"
    by (simp add: toy_get_action toy_learner_def best_payoff_agent_def)
  have st: "env_step toy_env 0 0 = (7, 0)"
    by (simp add: toy_env_def)
  have al: "act_and_learn toy_actor (actor_agent toy_learner) 0 True = ((1, - 1, False), [], 0)"
    by (simp add: toy_actor_def toy_learner_def)
  show ?thesis
    using generative_stop_appends_terminal_action_twice [OF ga st al, of "[]" "[]"] ga st al
    by (simp add: toy_learner_def toy_generated_learner_def)
qed

lemma toy_learner_reset:
  "toy_learner\<lparr>decision_agent := init_model_params (decision_agent toy_learner),
     actor_agent := actor_set_num_actions toy_actor
        (actor_init_model_params toy_actor (actor_agent toy_learner)) n\<rparr> = toy_learner"
  by (simp add: toy_learner_def toy_actor_def init_model_params_def best_payoff_agent_def)

lemma toy_simulate_generative:
  "simulate toy_env toy_actor (1 / 1000) toy_learner 0 zero_rng False (Some toy_participant) =
     Some (Inr (toy_generated_data, toy_generated_learner, Suc 0, zero_rng))"
proof -
  have pre: "actor_set_num_actions toy_actor (actor_clear_trial_buffers toy_actor (actor_agent toy_learner)) n = []"
    for n by (simp add: toy_actor_def toy_learner_def)
  have same: "toy_learner\<lparr>actor_agent := []\<rparr> = toy_learner"
    by (simp add: toy_learner_def)
  have fl: "final_loss toy_actor toy_generated_learner = None"
    by (simp add: final_loss_def toy_generated_learner_def best_payoff_agent_def)
  have n: "num_trials toy_env 0 = Suc 0" "env_reset toy_env 0 = 0" "get_next_trial toy_env 0 = Suc 0"
    "get_current_weights toy_actor [] = ()"
    by (simp_all add: toy_env_def toy_actor_def)
  show ?thesis
    by (simp add: simulate_def Let_def toy_learner_reset n pre same toy_generate_trial fl
        toy_generated_data_def)
qed

text \<open>An instance of C1: a generative run of one trial; one reward is recorded, no payoff.\<close>

theorem simulate_never_records_payoffs_witness:
  "simulate toy_env toy_actor (1 / 1000) toy_learner 0 zero_rng False (Some toy_participant) =
     Some (Inr (toy_generated_data, toy_generated_learner, Suc 0, zero_rng))
   \<and> num_trials toy_env 0 = 1
   \<and> length (td_r toy_generated_data) = 1
   \<and> payoffs (decision_agent toy_generated_learner) = []"
  using simulate_never_records_payoffs [OF toy_simulate_generative] toy_simulate_generative
  by (simp add: toy_env_def)

subsection \<open>The loss at the end of a run\<close>

lemma toy_replay_trial:
  "replay_trial toy_env toy_actor (1 / 1000) toy_participant 0 (toy_learner, 0, zero_rng) =
     Inr ((toy_replayed_learner, 0, zero_rng), [0], [7])"
proof -
  have ga: "get_action toy_env (decision_agent toy_learner) 0 zero_rng =
              (Inr (0, 1 / 2), best_payoff_agent\<lparr>history := [0]\<rparr>, zero_rng)"
    by (simp add: toy_get_action toy_learner_def best_payoff_agent_def)
  have ln_half: "ln (1 / 2 :: real) = - ln 2"
    by (simp add: ln_div)
  show ?thesis
    by (simp add: replay_trial_def toy_participant_def Let_def ga ln_half)
       (simp add: toy_learner_def toy_actor_def toy_replayed_learner_def best_payoff_agent_def)
qed

lemma toy_simulate_likelihood:
  "simulate toy_env toy_actor (1 / 1000) toy_learner 0 zero_rng True (Some toy_participant) =
     Some (Inr (toy_replayed_data, toy_replayed_learner, Suc 0, zero_rng))"
proof -
  have pre: "actor_set_num_actions toy_actor (actor_clear_trial_buffers toy_actor (actor_agent toy_learner)) n = []"
    for n by (simp add: toy_actor_def toy_learner_def)
  have same: "toy_learner\<lparr>actor_agent := []\<rparr> = toy_learner"
    by (simp add: toy_learner_def)
  have fl: "final_loss toy_actor toy_replayed_learner = Some (1 + ln 2)"
    by (simp add: final_loss_def toy_replayed_learner_def toy_actor_def)
  have n: "num_trials toy_env 0 = Suc 0" "env_reset toy_env 0 = 0" "get_next_trial toy_env 0 = Suc 0"
    "get_current_weights toy_actor [] = ()"
    by (simp_all add: toy_env_def toy_actor_def)
  show ?thesis
    by (simp add: simulate_def Let_def toy_learner_reset n pre same toy_replay_trial fl
        toy_replayed_data_def)
qed

lemma loss_of_simulate:
  assumes "simulate E A eps lrn env g cl participant = Some (Inr (td, lrn', env', g'))"
  shows "td_loss td = final_loss A lrn'"
  using assms
  by (auto simp: simulate_def Let_def split: option.splits sum.splits prod.splits)

lemma simulate_no_trials:
  assumes "num_trials E env = 0"
  shows "simulate E A eps lrn env g cl (Some part) =
           Some (Inr (\<lparr>td_w = [], td_a = [], td_r = [],
                       td_loss = final_loss A
                         (lrn\<lparr>decision_agent := init_model_params (decision_agent lrn),
                              actor_agent := actor_set_num_actions A
                                (actor_init_model_params A (actor_agent lrn))
                                (length (get_available_actions E (env_reset E env)))\<rparr>)\<rparr>,
                      lrn\<lparr>decision_agent := init_model_params (decision_agent lrn),
                          actor_agent := actor_set_num_actions A
                            (actor_init_model_params A (actor_agent lrn))
                            (length (get_available_actions E (env_reset E env)))\<rparr>,
                      env_reset E env, g))"
  using assms by (simp add: simulate_def Let_def)

text \<open>
  When a run returns, \<^verbatim>\<open>loss\<close> is the negated sum of the two agents' accumulated
  log-probabilities if both sequences are non-empty, and \<^verbatim>\<open>None\<close> otherwise. A
  generative run over an empty trial set that is given a participant record, by a learner
  whose termination agent holds no log-probability, returns with \<^verbatim>\<open>loss\<close> \<^verbatim>\<open>None\<close>.
\<close>

theorem loss_at_end_of_run:
  "(simulate E A eps lrn env g cl participant = Some (Inr (td, lrn', env', g')) \<longrightarrow>
      td_loss td =
        (if action_log_probs (decision_agent lrn') \<noteq> []
            \<and> actor_action_log_probs A (actor_agent lrn') \<noteq> []
         then Some (- (sum_list (action_log_probs (decision_agent lrn'))
                       + sum_list (actor_action_log_probs A (actor_agent lrn'))))
         else None))
   \<and> (num_trials E env = 0 \<and> action_log_probs (decision_agent lrn) = [] \<longrightarrow>
        (\<exists>td0 st. simulate E A eps lrn env g False (Some part) = Some (Inr (td0, st))
                   \<and> td_loss td0 = None))"
proof (intro conjI impI)
  assume "simulate E A eps lrn env g cl participant = Some (Inr (td, lrn', env', g'))"
  then show "td_loss td =
        (if action_log_probs (decision_agent lrn') \<noteq> []
            \<and> actor_action_log_probs A (actor_agent lrn') \<noteq> []
         then Some (- (sum_list (action_log_probs (decision_agent lrn'))
                       + sum_list (actor_action_log_probs A (actor_agent lrn'))))
         else None)"
    by (simp add: loss_of_simulate final_loss_def)
next
  assume a: "num_trials E env = 0 \<and> action_log_probs (decision_agent lrn) = []"
  then have "num_trials E env = 0" by simp
  from simulate_no_trials [OF this, of A eps lrn g False part] a
  show "\<exists>td0 st. simulate E A eps lrn env g False (Some part) = Some (Inr (td0, st))
                   \<and> td_loss td0 = None"
    by (simp add: final_loss_def init_model_params_def)
qed

text \<open>
  An instance: a replayed trial gives the loss \<open>-(ln (1/2) + (-1))\<close>; a generative run
  over no trial gives \<^verbatim>\<open>None\<close>.
\<close>

theorem loss_at_end_of_run_instance:
  "simulate toy_env toy_actor (1 / 1000) toy_learner 0 zero_rng True (Some toy_participant) =
     Some (Inr (toy_replayed_data, toy_replayed_learner, Suc 0, zero_rng))
   \<and> action_log_probs (decision_agent toy_replayed_learner) = [- ln 2]
   \<and> actor_action_log_probs toy_actor (actor_agent toy_replayed_learner) = [- 1]
   \<and> td_loss toy_replayed_data = Some (- (- ln 2 + - 1))
   \<and> num_trials empty_env 0 = 0
   \<and> action_log_probs (decision_agent toy_learner) = []
   \<and> (\<exists>td0 st. simulate empty_env toy_actor (1 / 1000) toy_learner 0 zero_rng False
                   (Some toy_participant) = Some (Inr (td0, st))
                \<and> td_loss td0 = None)"
proof -
  have h: "num_trials empty_env 0 = 0 \<and> action_log_probs (decision_agent toy_learner) = []"
    by (simp add: empty_env_def toy_env_def toy_learner_def best_payoff_agent_def)
  have logs: "action_log_probs (decision_agent toy_replayed_learner) = [- ln 2]"
    "actor_action_log_probs toy_actor (actor_agent toy_replayed_learner) = [- 1]"
    by (simp_all add: toy_replayed_learner_def toy_actor_def)
  from loss_at_end_of_run [of toy_env toy_actor "1 / 1000" toy_learner 0 zero_rng True
      "Some toy_participant" toy_replayed_data toy_replayed_learner "Suc 0" zero_rng]
    toy_simulate_likelihood logs
  have first: "td_loss toy_replayed_data = Some (- (- ln 2 + - 1))"
    by simp
  from loss_at_end_of_run [of empty_env toy_actor "1 / 1000" toy_learner 0 zero_rng True
      "Some toy_participant" toy_replayed_data toy_replayed_learner "Suc 0" zero_rng toy_participant] h
  have second: "\<exists>td0 st. simulate empty_env toy_actor (1 / 1000) toy_learner 0 zero_rng False
                   (Some toy_participant) = Some (Inr (td0, st)) \<and> td_loss td0 = None"
    by blast
  from toy_simulate_likelihood logs first h second show ?thesis by simp
qed





subsection \<open>Two runs on the same learner\<close>

lemma toy_replay_trial_again:
  "replay_trial toy_env toy_actor (1 / 1000) toy_participant 0
     (toy_replayed_learner\<lparr>decision_agent := init_model_params (decision_agent toy_replayed_learner),
        actor_agent := []\<rparr>, 0, zero_rng) =
     Inr ((toy_replayed_twice_learner, 0, zero_rng), [0], [7])"
proof -
  let ?dag = "init_model_params (decision_agent toy_replayed_learner)"
  have dag: "?dag = best_payoff_agent\<lparr>action_log_probs := [- ln 2]\<rparr>"
    by (simp add: init_model_params_def toy_replayed_learner_def best_payoff_agent_def)
  have ga: "get_action toy_env ?dag 0 zero_rng =
              (Inr (0, 1 / 2), best_payoff_agent\<lparr>history := [0], action_log_probs := [- ln 2]\<rparr>, zero_rng)"
    unfolding dag by (simp add: toy_get_action best_payoff_agent_def)
  have ln_half: "ln (1 / 2 :: real) = - ln 2"
    by (simp add: ln_div)
  show ?thesis
    by (simp add: replay_trial_def toy_participant_def Let_def ga ln_half)
       (simp add: toy_replayed_learner_def toy_actor_def toy_replayed_twice_learner_def best_payoff_agent_def)
qed

text \<open>
  C9. \<^verbatim>\<open>init_model_params\<close> does not assign \<^verbatim>\<open>action_log_probs\<close>. After a first replay
  run the reset agent still holds that run's log-probability and so differs from the
  freshly constructed agent; a second, identical run on the same learner then reports the
  loss \<open>1 + 2 ln 2\<close> where the first reported \<open>1 + ln 2\<close>.
\<close>

theorem reset_keeps_action_log_probs:
  "simulate toy_env toy_actor (1 / 1000) toy_learner 0 zero_rng True (Some toy_participant) =
     Some (Inr (toy_replayed_data, toy_replayed_learner, Suc 0, zero_rng))
   \<and> action_log_probs (init_model_params (decision_agent toy_replayed_learner)) = [- ln 2]
   \<and> HierarchicalAgent_init best_payoff_params
        \<lparr>attr_decision_rule = ''best_payoff'', attr_features = []\<rparr>
       = Inr best_payoff_agent
   \<and> init_model_params (decision_agent toy_replayed_learner) \<noteq> best_payoff_agent
   \<and> simulate toy_env toy_actor (1 / 1000) toy_replayed_learner (Suc 0) zero_rng True
        (Some toy_participant) =
       Some (Inr (toy_replayed_data\<lparr>td_loss := Some (1 + 2 * ln 2)\<rparr>,
                  toy_replayed_twice_learner, Suc 0, zero_rng))
   \<and> td_loss toy_replayed_data \<noteq> Some (1 + 2 * ln 2)"
proof -
  have logs: "action_log_probs (init_model_params (decision_agent toy_replayed_learner)) = [- ln 2]"
    by (simp add: init_model_params_def toy_replayed_learner_def)
  have fresh: "HierarchicalAgent_init best_payoff_params
        \<lparr>attr_decision_rule = ''best_payoff'', attr_features = []\<rparr>
       = Inr best_payoff_agent"
    by (simp add: HierarchicalAgent_init_def getitem_def best_payoff_params_def best_payoff_agent_def)
  have ne: "init_model_params (decision_agent toy_replayed_learner) \<noteq> best_payoff_agent"
  proof
    assume "init_model_params (decision_agent toy_replayed_learner) = best_payoff_agent"
    with logs have "action_log_probs best_payoff_agent = [- ln 2]" by simp
    then show False by (simp add: best_payoff_agent_def)
  qed
  have pre: "actor_set_num_actions toy_actor (actor_clear_trial_buffers toy_actor a) n = a"
    "actor_set_num_actions toy_actor (actor_init_model_params toy_actor a) n = []"
    for n a by (simp_all add: toy_actor_def)
  have fl: "final_loss toy_actor toy_replayed_twice_learner = Some (1 + 2 * ln 2)"
    by (simp add: final_loss_def toy_replayed_twice_learner_def toy_actor_def)
  have n: "num_trials toy_env (Suc 0) = Suc 0" "env_reset toy_env (Suc 0) = 0"
    "get_next_trial toy_env 0 = Suc 0" "get_current_weights toy_actor [] = ()"
    by (simp_all add: toy_env_def toy_actor_def)
  have act: "actor_agent toy_replayed_learner = [- 1]"
    by (simp add: toy_replayed_learner_def)
  have second: "simulate toy_env toy_actor (1 / 1000) toy_replayed_learner (Suc 0) zero_rng True
        (Some toy_participant) =
       Some (Inr (toy_replayed_data\<lparr>td_loss := Some (1 + 2 * ln 2)\<rparr>,
                  toy_replayed_twice_learner, Suc 0, zero_rng))"
    by (simp add: simulate_def Let_def n pre toy_replay_trial_again fl toy_replayed_data_def)
  have "ln (2::real) \<noteq> 0" by simp
  then have differ: "td_loss toy_replayed_data \<noteq> Some (1 + 2 * ln 2)"
    by (simp add: toy_replayed_data_def)
  from toy_simulate_likelihood logs fresh ne second differ show ?thesis by simp
qed

end
